theory Spec2Isabelle
  imports Complex_Main
begin

section \<open>The StyleGAN2 training core of \<^verbatim>\<open>model_zoo/model_stylegan2.py\<close>\<close>

text \<open>
  The class \<^verbatim>\<open>StyleGAN2\<close> is embedded as a record of its fields and one function per
  method, each taking the object and returning it updated. A Python exception is a value
  \<open>Inl e\<close>; a normal return is \<open>Inr\<close>.

  Conventions.
  \<^item> A tensor is the list of its entries, a batch the list of its samples, each flattened.
    Floating-point numbers are read as real numbers: rounding, NaN and infinity are outside
    the model, except in the one division of \<^verbatim>\<open>train\<close> where the source divides by a
    count that may be zero. In particular the mean of an empty tensor, NaN in the library,
    is whatever \<open>mean []\<close> is here, and no property below relies on it.
  \<^item> The networks of \<^verbatim>\<open>model_networks\<close>, the automatic differentiation of the tensor
    library, the Adam update rule and the random sources are not part of the file under
    study. They are parameters, collected in the record \<open>env\<close>.
  \<^item> Python integers are \<open>int\<close>; \<^verbatim>\<open>//\<close> and \<^verbatim>\<open>%\<close> are \<open>div\<close> and \<open>mod\<close>, which
    round the same way, with the division by zero written out.
\<close>

subsection \<open>Values\<close>

type_synonym tensor = "real list"
type_synonym batch = "tensor list"

datatype error = ZeroDivisionError | ValueError | RuntimeError | IndexError | FileNotFoundError

definition mean :: "real list \<Rightarrow> real" where
  "mean xs = sum_list xs / real (length xs)"

definition softplus :: "real \<Rightarrow> real" where
  "softplus x = ln (1 + exp x)"

definition sum_sq :: "tensor \<Rightarrow> real" where
  "sum_sq g = sum_list (map (\<lambda>x. x ^ 2) g)"

subsection \<open>Networks, gradient buffers and optimizers\<close>

text \<open>
  A network is its parameter vector, the \<^verbatim>\<open>requires_grad\<close> flag of its parameters
  (\<^verbatim>\<open>True\<close> for every parameter of a freshly built module) and their \<^verbatim>\<open>.grad\<close> buffer
  (\<^verbatim>\<open>None\<close> until a backward pass reaches them).
\<close>

record network =
  params :: tensor
  p_requires_grad :: bool
  grad :: "tensor option"

record adam =
  adam_lr :: real
  adam_betas :: "real \<times> real"
  adam_state :: "tensor list"

text \<open>
  The external collaborators. \<open>autograd\<close> receives a scalar loss as a function of the
  generator's and the discriminator's parameters and the point at which it is evaluated,
  and returns the two partial gradients.
\<close>

record 'r env =
  init_G :: "int \<Rightarrow> int \<Rightarrow> tensor"
  init_D :: "int \<Rightarrow> tensor"
  G_forward :: "tensor \<Rightarrow> batch list \<Rightarrow> batch"
  G_forward_dlatents :: "tensor \<Rightarrow> batch list \<Rightarrow> batch \<times> batch \<times> tensor list list"
  D_forward :: "tensor \<Rightarrow> batch \<Rightarrow> real list"
  input_grad :: "tensor \<Rightarrow> batch \<Rightarrow> batch"
  autograd :: "(tensor \<Rightarrow> tensor \<Rightarrow> real) \<Rightarrow> tensor \<Rightarrow> tensor \<Rightarrow> tensor \<times> tensor"
  adam_update :: "adam \<Rightarrow> tensor \<Rightarrow> tensor \<Rightarrow> tensor \<times> tensor list"
  random_random :: "'r \<Rightarrow> real \<times> 'r"
  randn :: "'r \<Rightarrow> nat \<Rightarrow> nat \<Rightarrow> batch \<times> 'r"

text \<open>
  \<^verbatim>\<open>torch.optim.Adam(params, lr, betas)\<close>: the constructor rejects a negative learning
  rate and a beta outside \<open>[0, 1)\<close> with \<^verbatim>\<open>ValueError\<close>; its state starts empty.
\<close>

definition Adam :: "real \<Rightarrow> real \<times> real \<Rightarrow> error + adam" where
  "Adam lr0 betas =
     (if lr0 < 0 then Inl ValueError
      else if fst betas < 0 \<or> 1 \<le> fst betas then Inl ValueError
      else if snd betas < 0 \<or> 1 \<le> snd betas then Inl ValueError
      else Inr \<lparr>adam_lr = lr0, adam_betas = betas, adam_state = []\<rparr>)"

text \<open>
  \<^verbatim>\<open>optimizer.zero_grad()\<close>: a buffer that exists is filled with zeros, as the library
  did when the repository was written (later releases drop the buffer instead). No
  property below depends on the difference.
\<close>

definition zero_grad :: "network \<Rightarrow> network" where
  "zero_grad net = net\<lparr>grad := map_option (map (\<lambda>_. 0)) (grad net)\<rparr>"

text \<open>\<^verbatim>\<open>optimizer.step()\<close>: parameters without a gradient are skipped.\<close>

definition step :: "'r env \<Rightarrow> adam \<Rightarrow> network \<Rightarrow> adam \<times> network" where
  "step env opt net =
     (case grad net of
        None \<Rightarrow> (opt, net)
      | Some g \<Rightarrow>
          (case adam_update env opt (params net) g of
             (p', st') \<Rightarrow> (opt\<lparr>adam_state := st'\<rparr>, net\<lparr>params := p'\<rparr>)))"

definition accumulate :: "tensor option \<Rightarrow> tensor \<Rightarrow> tensor option" where
  "accumulate buf g = (case buf of None \<Rightarrow> Some g | Some a \<Rightarrow> Some (map2 (+) a g))"

definition accumulate_grad :: "network \<Rightarrow> tensor \<Rightarrow> network" where
  "accumulate_grad net g =
     (if p_requires_grad net then net\<lparr>grad := accumulate (grad net) g\<rparr> else net)"

subsection \<open>The trainer object\<close>

record config =
  cfg_log_dir :: string
  cfg_batch_size :: int
  cfg_n_sample :: int
  cfg_img_size :: int
  cfg_lr :: real
  cfg_r1 :: real
  cfg_path_regularize :: real
  cfg_path_batch_shrink :: int
  cfg_g_reg_every :: int
  cfg_d_reg_every :: int
  cfg_mixing :: real

text \<open>
  The fields of \<^verbatim>\<open>self\<close>. \<open>rng\<close> stands for the process-wide random sources and
  \<open>backward_trace\<close> records the value of every scalar on which \<^verbatim>\<open>.backward()\<close> was
  called, in order; neither is a field of the Python object. Device placement is left out.
\<close>

record 'r trainer =
  batch_size :: int
  n_sample :: int
  img_size :: int
  log_dir :: string
  lr :: real
  g_reg_every :: int
  d_reg_every :: int
  latent_size :: int
  r1 :: real
  path_regularize :: real
  path_batch_shrink :: int
  mixing :: real
  path_lengths :: "real list"
  mean_path_length :: real
  mean_path_length_avg :: real
  sample_z :: batch
  G :: network
  D :: network
  r1_loss :: real
  path_loss :: real
  optimizer_G :: adam
  optimizer_D :: adam
  rng :: 'r
  backward_trace :: "real list"

text \<open>
  \<^verbatim>\<open>0 ** x\<close> for a float \<open>x\<close>: one at zero, zero above it, an error below it.
  \<^verbatim>\<open>0.99 ** x\<close> is \<open>0.99 powr x\<close>.
\<close>

definition zero_pow :: "real \<Rightarrow> error + real" where
  "zero_pow x = (if x = 0 then Inr 1 else if 0 < x then Inr 0 else Inl ZeroDivisionError)"

definition reg_ratio :: "int \<Rightarrow> error + real" where
  "reg_ratio every =
     (if every + 1 = 0 then Inl ZeroDivisionError
      else Inr (real_of_int every / real_of_int (every + 1)))"

definition make_optimizer :: "real \<Rightarrow> real \<Rightarrow> error + adam" where
  "make_optimizer lr0 ratio =
     (case zero_pow ratio of
        Inl e \<Rightarrow> Inl e
      | Inr b1 \<Rightarrow> Adam (lr0 * ratio) (b1, 0.99 powr ratio))"

text \<open>
  \<^verbatim>\<open>__init__\<close>. The scalar tensors \<^verbatim>\<open>path_lengths\<close>, \<^verbatim>\<open>r1_loss\<close> and \<^verbatim>\<open>path_loss\<close>
  start at \<open>0.0\<close>; a zero-dimensional tensor is the one-element list, whose mean is its
  entry. \<^verbatim>\<open>torch.randn\<close> raises on a negative size.
\<close>

definition init :: "'r env \<Rightarrow> 'r \<Rightarrow> config \<Rightarrow> error + 'r trainer" where
  "init env r cfg =
     (if cfg_n_sample cfg < 0 then Inl RuntimeError
      else
        (case randn env r (nat (cfg_n_sample cfg)) 512 of
           (z, r') \<Rightarrow>
             (case reg_ratio (cfg_g_reg_every cfg) of
                Inl e \<Rightarrow> Inl e
              | Inr g_reg_ratio \<Rightarrow>
                  (case reg_ratio (cfg_d_reg_every cfg) of
                     Inl e \<Rightarrow> Inl e
                   | Inr d_reg_ratio \<Rightarrow>
                       (case make_optimizer (cfg_lr cfg) g_reg_ratio of
                          Inl e \<Rightarrow> Inl e
                        | Inr opt_G \<Rightarrow>
                            (case make_optimizer (cfg_lr cfg) d_reg_ratio of
                               Inl e \<Rightarrow> Inl e
                             | Inr opt_D \<Rightarrow>
                                 Inr \<lparr>batch_size = cfg_batch_size cfg,
                                      n_sample = cfg_n_sample cfg,
                                      img_size = cfg_img_size cfg,
                                      log_dir = cfg_log_dir cfg,
                                      lr = cfg_lr cfg,
                                      g_reg_every = cfg_g_reg_every cfg,
                                      d_reg_every = cfg_d_reg_every cfg,
                                      latent_size = 512,
                                      r1 = cfg_r1 cfg,
                                      path_regularize = cfg_path_regularize cfg,
                                      path_batch_shrink = cfg_path_batch_shrink cfg,
                                      mixing = cfg_mixing cfg,
                                      path_lengths = [0],
                                      mean_path_length = 0,
                                      mean_path_length_avg = 0,
                                      sample_z = z,
                                      G = \<lparr>params = init_G env (cfg_img_size cfg) 512,
                                           p_requires_grad = True, grad = None\<rparr>,
                                      D = \<lparr>params = init_D env (cfg_img_size cfg),
                                           p_requires_grad = True, grad = None\<rparr>,
                                      r1_loss = 0,
                                      path_loss = 0,
                                      optimizer_G = opt_G,
                                      optimizer_D = opt_D,
                                      rng = r',
                                      backward_trace = []\<rparr>))))))"

text \<open>\<^verbatim>\<open>requires_grad(model, flag)\<close>: sets the flag of every parameter of the model.\<close>

definition requires_grad :: "network \<Rightarrow> bool \<Rightarrow> network" where
  "requires_grad model flag = model\<lparr>p_requires_grad := flag\<rparr>"

subsection \<open>Noise\<close>

text \<open>
  \<^verbatim>\<open>mixing_noise\<close>. \<^verbatim>\<open>random.random()\<close> is drawn only when \<^verbatim>\<open>prob > 0\<close>.
  \<^verbatim>\<open>torch.randn(2, b, l).unbind(0)\<close> is one draw of \<open>2 * b\<close> rows cut in two.
\<close>

definition mixing_noise :: "'r env \<Rightarrow> int \<Rightarrow> int \<Rightarrow> real \<Rightarrow> 'r \<Rightarrow> error + (batch list \<times> 'r)" where
  "mixing_noise env batch_size0 latent_size0 prob r =
     (case (if 0 < prob then (case random_random env r of (u, ra) \<Rightarrow> (u < prob, ra))
            else (False, r)) of
        (mix, ra) \<Rightarrow>
          if batch_size0 < 0 \<or> latent_size0 < 0 then Inl RuntimeError
          else if mix then
            (case randn env ra (2 * nat batch_size0) (nat latent_size0) of
               (z, rb) \<Rightarrow> Inr ([take (nat batch_size0) z, drop (nat batch_size0) z], rb))
          else
            (case randn env ra (nat batch_size0) (nat latent_size0) of
               (z, rb) \<Rightarrow> Inr ([z], rb)))"

subsection \<open>Backward passes\<close>

text \<open>
  \<^verbatim>\<open>loss.backward()\<close>: the gradient of the loss is added to the buffers of the networks
  that the loss was computed from (\<open>in_G\<close>, \<open>in_D\<close>) and whose parameters require a
  gradient. The other network is not touched.
\<close>

definition backward :: "'r env \<Rightarrow> bool \<Rightarrow> bool \<Rightarrow> (tensor \<Rightarrow> tensor \<Rightarrow> real) \<Rightarrow> 'r trainer \<Rightarrow> 'r trainer" where
  "backward env in_G in_D loss s =
     (case autograd env loss (params (G s)) (params (D s)) of
        (gG, gD) \<Rightarrow>
          s\<lparr>G := (if in_G then accumulate_grad (G s) gG else G s),
            D := (if in_D then accumulate_grad (D s) gD else D s),
            backward_trace := backward_trace s @ [loss (params (G s)) (params (D s))]\<rparr>)"

definition d_adv_loss_of :: "'r env \<Rightarrow> batch list \<Rightarrow> batch \<Rightarrow> tensor \<Rightarrow> tensor \<Rightarrow> real" where
  "d_adv_loss_of env noise real_imgs pG pD =
     (let fake_imgs = G_forward env pG noise;
          fake_pred = D_forward env pD fake_imgs;
          real_pred = D_forward env pD real_imgs;
          real_loss = map (\<lambda>x. softplus (- x)) real_pred;
          fake_loss = map softplus fake_pred
      in mean real_loss + mean fake_loss)"

text \<open>
  \<^verbatim>\<open>backward_D_adv\<close>. The fake images come from \<^verbatim>\<open>self.G(noise)\<close> with gradients
  enabled and are passed on as they are, so the loss is computed from both networks.
\<close>

definition backward_D_adv :: "'r env \<Rightarrow> 'r trainer \<Rightarrow> batch \<Rightarrow> int \<Rightarrow> int \<Rightarrow> real \<Rightarrow> error + (real \<times> 'r trainer)" where
  "backward_D_adv env s real_imgs batch_size0 latent_size0 mixing0 =
     (case mixing_noise env batch_size0 latent_size0 mixing0 (rng s) of
        Inl e \<Rightarrow> Inl e
      | Inr (noise, r') \<Rightarrow>
          (let s1 = s\<lparr>rng := r'\<rparr>;
               d_adv_loss = d_adv_loss_of env noise real_imgs (params (G s1)) (params (D s1))
           in Inr (d_adv_loss, backward env True True (d_adv_loss_of env noise real_imgs) s1)))"

definition r1_loss_of :: "'r env \<Rightarrow> batch \<Rightarrow> tensor \<Rightarrow> real" where
  "r1_loss_of env real_imgs pD = mean (map sum_sq (input_grad env pD real_imgs))"

definition first_or_zero :: "real list \<Rightarrow> real" where
  "first_or_zero xs = (case xs of [] \<Rightarrow> 0 | x # _ \<Rightarrow> x)"

definition r1_weighted_of :: "'r env \<Rightarrow> batch \<Rightarrow> real \<Rightarrow> int \<Rightarrow> tensor \<Rightarrow> tensor \<Rightarrow> real" where
  "r1_weighted_of env real_imgs r10 d_reg_every0 pG pD =
     r10 / 2 * r1_loss_of env real_imgs pD * real_of_int d_reg_every0
       + 0 * first_or_zero (D_forward env pD real_imgs)"

text \<open>
  \<^verbatim>\<open>backward_D_r1\<close>. \<^verbatim>\<open>reshape(grad_real.shape[0], -1)\<close> raises on an empty batch and
  \<^verbatim>\<open>real_pred[0]\<close> on an empty prediction.
\<close>

definition backward_D_r1 :: "'r env \<Rightarrow> 'r trainer \<Rightarrow> batch \<Rightarrow> real \<Rightarrow> int \<Rightarrow> error + (real \<times> 'r trainer)" where
  "backward_D_r1 env s real_imgs r10 d_reg_every0 =
     (let real_pred = D_forward env (params (D s)) real_imgs;
          grad_real = input_grad env (params (D s)) real_imgs
      in if grad_real = [] then Inl RuntimeError
         else if real_pred = [] then Inl IndexError
         else Inr (r1_loss_of env real_imgs (params (D s)),
                   backward env False True (r1_weighted_of env real_imgs r10 d_reg_every0) s))"

definition g_adv_loss_of :: "'r env \<Rightarrow> batch list \<Rightarrow> tensor \<Rightarrow> tensor \<Rightarrow> real" where
  "g_adv_loss_of env noise pG pD =
     (let fake_imgs = G_forward env pG noise;
          fake_pred = D_forward env pD fake_imgs
      in mean (map (\<lambda>x. softplus (- x)) fake_pred))"

definition backward_G_adv :: "'r env \<Rightarrow> 'r trainer \<Rightarrow> int \<Rightarrow> int \<Rightarrow> real \<Rightarrow> error + (real \<times> 'r trainer)" where
  "backward_G_adv env s batch_size0 latent_size0 mixing0 =
     (case mixing_noise env batch_size0 latent_size0 mixing0 (rng s) of
        Inl e \<Rightarrow> Inl e
      | Inr (noise, r') \<Rightarrow>
          (let s1 = s\<lparr>rng := r'\<rparr>;
               g_adv_loss = g_adv_loss_of env noise (params (G s1)) (params (D s1))
           in Inr (g_adv_loss, backward env True True (g_adv_loss_of env noise) s1)))"

text \<open>
  The three quantities of \<^verbatim>\<open>backward_G_path\<close>:
  \<^verbatim>\<open>path_lengths = torch.sqrt(grad.pow(2).sum(2).mean(1))\<close>,
  \<^verbatim>\<open>path_mean = mean_path_length + decay * (path_lengths.mean() - mean_path_length)\<close>,
  \<^verbatim>\<open>path_loss = (path_lengths - path_mean).pow(2).mean()\<close>.
\<close>

definition path_lengths_of :: "tensor list list \<Rightarrow> real list" where
  "path_lengths_of g = map (\<lambda>sample. sqrt (mean (map sum_sq sample))) g"

definition path_mean_of :: "real \<Rightarrow> real list \<Rightarrow> real" where
  "path_mean_of mean_path_length0 pls =
     mean_path_length0 + 0.01 * (mean pls - mean_path_length0)"

definition path_loss_of :: "real list \<Rightarrow> real \<Rightarrow> real" where
  "path_loss_of pls path_mean = mean (map (\<lambda>l. (l - path_mean) ^ 2) pls)"

definition path_batch_size_of :: "int \<Rightarrow> int \<Rightarrow> error + int" where
  "path_batch_size_of batch_size0 path_batch_shrink0 =
     (if path_batch_shrink0 = 0 then Inl ZeroDivisionError
      else Inr (max 1 (batch_size0 div path_batch_shrink0)))"

definition first_pixel :: "batch \<Rightarrow> real option" where
  "first_pixel imgs =
     (case imgs of [] \<Rightarrow> None | img # _ \<Rightarrow> (case img of [] \<Rightarrow> None | px # _ \<Rightarrow> Some px))"

definition path_weighted_of :: "'r env \<Rightarrow> batch list \<Rightarrow> real \<Rightarrow> real \<Rightarrow> int \<Rightarrow> int \<Rightarrow> tensor \<Rightarrow> tensor \<Rightarrow> real" where
  "path_weighted_of env noise mean_path_length0 path_regularize0 g_reg_every0 path_batch_shrink0 pG pD =
     (case G_forward_dlatents env pG noise of
        (fake_imgs, dlatents, g) \<Rightarrow>
          (let pls = path_lengths_of g;
               pl = path_loss_of pls (path_mean_of mean_path_length0 pls);
               w = path_regularize0 * real_of_int g_reg_every0 * pl
           in if path_batch_shrink0 = 0 then w
              else w + 0 * (case first_pixel fake_imgs of None \<Rightarrow> 0 | Some px \<Rightarrow> px)))"

definition backward_G_path :: "'r env \<Rightarrow> 'r trainer \<Rightarrow> int \<Rightarrow> int \<Rightarrow> real \<Rightarrow> int \<Rightarrow> real \<Rightarrow> real \<Rightarrow> int \<Rightarrow> error + ((real \<times> real \<times> real list) \<times> 'r trainer)" where
  "backward_G_path env s batch_size0 latent_size0 mixing0 path_batch_shrink0 mean_path_length0 path_regularize0 g_reg_every0 =
     (case path_batch_size_of batch_size0 path_batch_shrink0 of
        Inl e \<Rightarrow> Inl e
      | Inr path_batch_size \<Rightarrow>
          (case mixing_noise env path_batch_size latent_size0 mixing0 (rng s) of
             Inl e \<Rightarrow> Inl e
           | Inr (noise, r') \<Rightarrow>
               (case G_forward_dlatents env (params (G s)) noise of
                  (fake_imgs, dlatents, g) \<Rightarrow>
                    (let s1 = s\<lparr>rng := r'\<rparr>;
                         pls = path_lengths_of g;
                         path_mean = path_mean_of mean_path_length0 pls;
                         pl = path_loss_of pls path_mean
                     in if path_batch_shrink0 = 0 then
                          Inr ((pl, path_mean, pls),
                               backward env True False
                                 (path_weighted_of env noise mean_path_length0 path_regularize0
                                    g_reg_every0 path_batch_shrink0) s1)
                        else
                          (case first_pixel fake_imgs of
                             None \<Rightarrow> Inl IndexError
                           | Some px \<Rightarrow>
                               Inr ((pl, path_mean, pls),
                                    backward env True False
                                      (path_weighted_of env noise mean_path_length0 path_regularize0
                                         g_reg_every0 path_batch_shrink0) s1))))))"

subsection \<open>One batch\<close>

text \<open>
  \<^verbatim>\<open>optimize\<close> is four blocks run in order, named here after the comments that open
  them in the source. Each block is the statements of the source between two comments.
\<close>

definition optimizer_D_zero_grad :: "'r trainer \<Rightarrow> 'r trainer" where
  "optimizer_D_zero_grad s = s\<lparr>D := zero_grad (D s)\<rparr>"

definition optimizer_D_step :: "'r env \<Rightarrow> 'r trainer \<Rightarrow> 'r trainer" where
  "optimizer_D_step env s =
     (case step env (optimizer_D s) (D s) of (opt, net) \<Rightarrow> s\<lparr>optimizer_D := opt, D := net\<rparr>)"

definition optimizer_G_zero_grad :: "'r trainer \<Rightarrow> 'r trainer" where
  "optimizer_G_zero_grad s = s\<lparr>G := zero_grad (G s)\<rparr>"

definition optimizer_G_step :: "'r env \<Rightarrow> 'r trainer \<Rightarrow> 'r trainer" where
  "optimizer_G_step env s =
     (case step env (optimizer_G s) (G s) of (opt, net) \<Rightarrow> s\<lparr>optimizer_G := opt, G := net\<rparr>)"

definition update_Discriminator :: "'r env \<Rightarrow> 'r trainer \<Rightarrow> batch \<Rightarrow> error + (real \<times> 'r trainer)" where
  "update_Discriminator env s real_imgs =
     (case backward_D_adv env (optimizer_D_zero_grad s) real_imgs
             (batch_size s) (latent_size s) (mixing s) of
        Inl e \<Rightarrow> Inl e
      | Inr (d_adv_loss, s1) \<Rightarrow> Inr (d_adv_loss, optimizer_D_step env s1))"

definition apply_r1_regularization :: "'r env \<Rightarrow> 'r trainer \<Rightarrow> int \<Rightarrow> batch \<Rightarrow> error + 'r trainer" where
  "apply_r1_regularization env s batch_idx real_imgs =
     (if d_reg_every s = 0 then Inl ZeroDivisionError
      else if batch_idx mod d_reg_every s = 0 then
        (case backward_D_r1 env (optimizer_D_zero_grad s) real_imgs (r1 s) (d_reg_every s) of
           Inl e \<Rightarrow> Inl e
         | Inr (l, s1) \<Rightarrow> Inr (optimizer_D_step env (s1\<lparr>r1_loss := l\<rparr>)))
      else Inr s)"

definition update_Generator :: "'r env \<Rightarrow> 'r trainer \<Rightarrow> error + (real \<times> 'r trainer)" where
  "update_Generator env s =
     (case backward_G_adv env (optimizer_G_zero_grad s)
             (batch_size s) (latent_size s) (mixing s) of
        Inl e \<Rightarrow> Inl e
      | Inr (g_adv_loss, s1) \<Rightarrow> Inr (g_adv_loss, optimizer_G_step env s1))"

definition apply_path_length_regularization :: "'r env \<Rightarrow> 'r trainer \<Rightarrow> int \<Rightarrow> error + 'r trainer" where
  "apply_path_length_regularization env s batch_idx =
     (if g_reg_every s = 0 then Inl ZeroDivisionError
      else if batch_idx mod g_reg_every s = 0 then
        (case backward_G_path env (optimizer_G_zero_grad s)
                (batch_size s) (latent_size s) (mixing s) (path_batch_shrink s)
                (mean_path_length s) (path_regularize s) (g_reg_every s) of
           Inl e \<Rightarrow> Inl e
         | Inr ((pl, pm, pls), s1) \<Rightarrow>
             Inr (optimizer_G_step env
                    (s1\<lparr>path_loss := pl, mean_path_length := pm, path_lengths := pls\<rparr>)))
      else Inr s)"

definition optimize :: "'r env \<Rightarrow> 'r trainer \<Rightarrow> int \<Rightarrow> batch \<Rightarrow> error + (real list \<times> 'r trainer)" where
  "optimize env s batch_idx data =
     (case update_Discriminator env s data of
        Inl e \<Rightarrow> Inl e
      | Inr (d_adv_loss, s1) \<Rightarrow>
          (case apply_r1_regularization env s1 batch_idx data of
             Inl e \<Rightarrow> Inl e
           | Inr s2 \<Rightarrow>
               (case update_Generator env s2 of
                  Inl e \<Rightarrow> Inl e
                | Inr (g_adv_loss, s3) \<Rightarrow>
                    (case apply_path_length_regularization env s3 batch_idx of
                       Inl e \<Rightarrow> Inl e
                     | Inr s4 \<Rightarrow>
                         Inr ([d_adv_loss, r1_loss s4, g_adv_loss, path_loss s4,
                               mean (path_lengths s4), mean_path_length s4], s4)))))"

subsection \<open>One epoch\<close>

text \<open>
  \<^verbatim>\<open>train\<close>: the loop over \<^verbatim>\<open>enumerate(data_loader)\<close> adds each report to the running
  sum; the timing and the progress line change nothing and are left out. After the loop
  \<^verbatim>\<open>running_loss /= len(data_loader)\<close> is a division of an array of floats, which raises
  nothing when the count is zero: it yields NaN or an infinity.
\<close>

datatype npfloat = Finite real | NaN | PosInf | NegInf

definition np_divide :: "real \<Rightarrow> nat \<Rightarrow> npfloat" where
  "np_divide x n =
     (if n = 0 then (if x = 0 then NaN else if 0 < x then PosInf else NegInf)
      else Finite (x / real n))"

fun train_loop :: "'r env \<Rightarrow> 'r trainer \<Rightarrow> real list \<Rightarrow> int \<Rightarrow> batch list \<Rightarrow> error + (real list \<times> 'r trainer)" where
  "train_loop env s running_loss batch_idx [] = Inr (running_loss, s)"
| "train_loop env s running_loss batch_idx (data # rest) =
     (case optimize env s batch_idx data of
        Inl e \<Rightarrow> Inl e
      | Inr (losses, s') \<Rightarrow>
          train_loop env s' (map2 (+) running_loss losses) (batch_idx + 1) rest)"

definition train :: "'r env \<Rightarrow> 'r trainer \<Rightarrow> batch list \<Rightarrow> error + (npfloat list \<times> 'r trainer)" where
  "train env s data_loader =
     (case train_loop env s [0, 0, 0, 0, 0, 0] 0 data_loader of
        Inl e \<Rightarrow> Inl e
      | Inr (running_loss, s') \<Rightarrow>
          Inr (map (\<lambda>x. np_divide x (length data_loader)) running_loss, s'))"

text \<open>
  The reports of the loop of \<^verbatim>\<open>train\<close>, batch by batch. The loop itself keeps only
  their sum.
\<close>

fun batch_reports :: "'r env \<Rightarrow> 'r trainer \<Rightarrow> int \<Rightarrow> batch list \<Rightarrow> error + (real list list \<times> 'r trainer)" where
  "batch_reports env s batch_idx [] = Inr ([], s)"
| "batch_reports env s batch_idx (data # rest) =
     (case optimize env s batch_idx data of
        Inl e \<Rightarrow> Inl e
      | Inr (losses, s') \<Rightarrow>
          (case batch_reports env s' (batch_idx + 1) rest of
             Inl e \<Rightarrow> Inl e
           | Inr (reports, s'') \<Rightarrow> Inr (losses # reports, s'')))"

subsection \<open>Checkpoints\<close>

text \<open>
  The files under the log directory are a map from path to stored state dictionary.
  \<open>path_join\<close> is \<^verbatim>\<open>os.path.join\<close> on two components; \<open>load_network\<close> fails on a
  missing file, and \<^verbatim>\<open>load_state_dict\<close> on a dictionary of another size.
\<close>

type_synonym files = "string \<Rightarrow> tensor option"

definition path_join :: "string \<Rightarrow> string \<Rightarrow> string" where
  "path_join a b =
     (if take 1 b = ''/'' then b
      else if a = [] \<or> last a = CHR ''/'' then a @ b
      else a @ ''/'' @ b)"

definition net_filename :: "string \<Rightarrow> string \<Rightarrow> string" where
  "net_filename network_label epoch_label = network_label @ ''_net_'' @ epoch_label @ ''.pth''"

definition save_network :: "'r trainer \<Rightarrow> files \<Rightarrow> network \<Rightarrow> string \<Rightarrow> string \<Rightarrow> files" where
  "save_network s fs net network_label epoch_label =
     fs(path_join (log_dir s) (net_filename network_label epoch_label) \<mapsto> params net)"

definition load_network :: "'r trainer \<Rightarrow> files \<Rightarrow> network \<Rightarrow> string \<Rightarrow> string \<Rightarrow> error + network" where
  "load_network s fs net network_label epoch_label =
     (case fs (path_join (log_dir s) (net_filename network_label epoch_label)) of
        None \<Rightarrow> Inl FileNotFoundError
      | Some sd \<Rightarrow>
          if length sd = length (params net) then Inr (net\<lparr>params := sd\<rparr>)
          else Inl RuntimeError)"

definition save :: "'r trainer \<Rightarrow> files \<Rightarrow> string \<Rightarrow> files" where
  "save s fs epoch_label =
     save_network s (save_network s fs (G s) ''Generator'' epoch_label)
       (D s) ''Discriminator'' epoch_label"

definition load :: "'r trainer \<Rightarrow> files \<Rightarrow> string \<Rightarrow> error + 'r trainer" where
  "load s fs epoch_label =
     (case load_network s fs (G s) ''Generator'' epoch_label of
        Inl e \<Rightarrow> Inl e
      | Inr g \<Rightarrow>
          (case load_network s fs (D s) ''Discriminator'' epoch_label of
             Inl e \<Rightarrow> Inl e
           | Inr d \<Rightarrow> Inr (s\<lparr>G := g, D := d\<rparr>)))"

subsection \<open>A small instance\<close>

text \<open>
  A one-parameter generator that paints every pixel with its parameter, a one-parameter
  discriminator that scales the first pixel, a gradient oracle that returns the unit
  gradient, plain gradient descent for the update rule and a random source that counts
  its draws. The configuration is the default argument list of \<^verbatim>\<open>__init__\<close>.
\<close>

definition example_env :: "nat env" where
  "example_env =
     \<lparr>init_G = (\<lambda>resolution latent. [1]),
      init_D = (\<lambda>resolution. [2]),
      G_forward = (\<lambda>pG noise. map (\<lambda>z. pG) (concat (take 1 noise))),
      G_forward_dlatents =
        (\<lambda>pG noise. (map (\<lambda>z. pG) (concat (take 1 noise)),
                      concat (take 1 noise),
                      map (\<lambda>z. [[0, 1]]) (concat (take 1 noise)))),
      D_forward = (\<lambda>pD imgs. map (\<lambda>img. sum_list pD * first_or_zero img) imgs),
      input_grad = (\<lambda>pD imgs. map (\<lambda>img. pD) imgs),
      autograd = (\<lambda>loss pG pD. ([1], [1])),
      adam_update = (\<lambda>opt p g. (map2 (\<lambda>x y. x - adam_lr opt * y) p g, [])),
      random_random = (\<lambda>r. (1 / 2, Suc r)),
      randn = (\<lambda>r b l. (replicate b (replicate l 0), Suc r))\<rparr>"

definition default_config :: config where
  "default_config =
     \<lparr>cfg_log_dir = ''logs'', cfg_batch_size = 16, cfg_n_sample = 16, cfg_img_size = 1024,
      cfg_lr = 0.001, cfg_r1 = 10, cfg_path_regularize = 2, cfg_path_batch_shrink = 2,
      cfg_g_reg_every = 4, cfg_d_reg_every = 16, cfg_mixing = 0.9\<rparr>"

text \<open>The object that \<^verbatim>\<open>__init__\<close> builds from the default configuration.\<close>

definition example_trainer :: "nat trainer" where
  "example_trainer =
     \<lparr>batch_size = 16, n_sample = 16, img_size = 1024, log_dir = ''logs'', lr = 0.001,
      g_reg_every = 4, d_reg_every = 16, latent_size = 512, r1 = 10, path_regularize = 2,
      path_batch_shrink = 2, mixing = 0.9, path_lengths = [0], mean_path_length = 0,
      mean_path_length_avg = 0, sample_z = replicate 16 (replicate 512 0),
      G = \<lparr>params = [1], p_requires_grad = True, grad = None\<rparr>,
      D = \<lparr>params = [2], p_requires_grad = True, grad = None\<rparr>,
      r1_loss = 0, path_loss = 0,
      optimizer_G = \<lparr>adam_lr = 0.001 * (4 / 5), adam_betas = (0, 0.99 powr (4 / 5)),
                     adam_state = []\<rparr>,
      optimizer_D = \<lparr>adam_lr = 0.001 * (16 / 17), adam_betas = (0, 0.99 powr (16 / 17)),
                     adam_state = []\<rparr>,
      rng = 1, backward_trace = []\<rparr>"

definition example_data :: batch where
  "example_data = replicate 16 [1]"

text \<open>The same object after the batch of index 0.\<close>

definition example_after_batch :: "nat trainer" where
  "example_after_batch =
     (case optimize example_env example_trainer 0 example_data of
        Inl e \<Rightarrow> example_trainer
      | Inr (report, s') \<Rightarrow> s')"

section \<open>Properties\<close>

subsection \<open>Arithmetic of the small instance\<close>

lemma powr_lt_1: "0 < x \<Longrightarrow> x < 1 \<Longrightarrow> 0 < r \<Longrightarrow> (x::real) powr r < 1"
  using powr_less_mono' [of x 0 r] by simp

lemma powr_not_ge_1: "0 < x \<Longrightarrow> x < 1 \<Longrightarrow> 0 < r \<Longrightarrow> \<not> 1 \<le> (x::real) powr r"
  using powr_lt_1 [of x r] by simp

lemma first_pixel_replicate: "0 < n \<Longrightarrow> first_pixel (replicate n (px # rest)) = Some px"
  by (cases n) (simp_all add: first_pixel_def)

lemma mean_replicate: "0 < n \<Longrightarrow> mean (replicate n x) = x"
  by (simp add: mean_def sum_list_replicate)

lemma mean_single: "mean [x] = x"
  by (simp add: mean_def)

subsection \<open>What each statement leaves alone\<close>

text \<open>
  A backward pass writes gradient buffers and nothing else; an optimizer step writes the
  parameters and the state of its own network and nothing else.
\<close>

lemma backward_frame:
  "r1_loss (backward env a b L s) = r1_loss s"
  "path_loss (backward env a b L s) = path_loss s"
  "path_lengths (backward env a b L s) = path_lengths s"
  "mean_path_length (backward env a b L s) = mean_path_length s"
  "d_reg_every (backward env a b L s) = d_reg_every s"
  "g_reg_every (backward env a b L s) = g_reg_every s"
  "params (G (backward env a b L s)) = params (G s)"
  "params (D (backward env a b L s)) = params (D s)"
  "p_requires_grad (G (backward env a b L s)) = p_requires_grad (G s)"
  "p_requires_grad (D (backward env a b L s)) = p_requires_grad (D s)"
  "optimizer_G (backward env a b L s) = optimizer_G s"
  "optimizer_D (backward env a b L s) = optimizer_D s"
  "rng (backward env a b L s) = rng s"
  "backward_trace (backward env a b L s) = backward_trace s @ [L (params (G s)) (params (D s))]"
  by (simp_all add: backward_def accumulate_grad_def split: prod.splits)

lemma backward_untouched:
  "G (backward env False b L s) = G s"
  "D (backward env a False L s) = D s"
  by (simp_all add: backward_def split: prod.splits)

lemma optimizer_D_step_frame:
  "G (optimizer_D_step env s) = G s"
  "optimizer_G (optimizer_D_step env s) = optimizer_G s"
  "r1_loss (optimizer_D_step env s) = r1_loss s"
  "path_loss (optimizer_D_step env s) = path_loss s"
  "path_lengths (optimizer_D_step env s) = path_lengths s"
  "mean_path_length (optimizer_D_step env s) = mean_path_length s"
  "d_reg_every (optimizer_D_step env s) = d_reg_every s"
  "g_reg_every (optimizer_D_step env s) = g_reg_every s"
  "rng (optimizer_D_step env s) = rng s"
  "backward_trace (optimizer_D_step env s) = backward_trace s"
  "grad (D (optimizer_D_step env s)) = grad (D s)"
  "p_requires_grad (D (optimizer_D_step env s)) = p_requires_grad (D s)"
  by (simp_all add: optimizer_D_step_def step_def split: prod.splits option.splits)

lemma optimizer_G_step_frame:
  "D (optimizer_G_step env s) = D s"
  "optimizer_D (optimizer_G_step env s) = optimizer_D s"
  "r1_loss (optimizer_G_step env s) = r1_loss s"
  "path_loss (optimizer_G_step env s) = path_loss s"
  "path_lengths (optimizer_G_step env s) = path_lengths s"
  "mean_path_length (optimizer_G_step env s) = mean_path_length s"
  "d_reg_every (optimizer_G_step env s) = d_reg_every s"
  "g_reg_every (optimizer_G_step env s) = g_reg_every s"
  "rng (optimizer_G_step env s) = rng s"
  "backward_trace (optimizer_G_step env s) = backward_trace s"
  "grad (G (optimizer_G_step env s)) = grad (G s)"
  "p_requires_grad (G (optimizer_G_step env s)) = p_requires_grad (G s)"
  by (simp_all add: optimizer_G_step_def step_def split: prod.splits option.splits)

lemma update_Discriminator_frame:
  assumes "update_Discriminator env s real_imgs = Inr (l, s')"
  shows "r1_loss s' = r1_loss s" "path_loss s' = path_loss s" "path_lengths s' = path_lengths s"
    "mean_path_length s' = mean_path_length s" "d_reg_every s' = d_reg_every s"
    "g_reg_every s' = g_reg_every s" "params (G s') = params (G s)"
    "optimizer_G s' = optimizer_G s" "p_requires_grad (G s') = p_requires_grad (G s)"
  using assms
  by (auto simp: update_Discriminator_def backward_D_adv_def optimizer_D_zero_grad_def
      optimizer_D_step_frame backward_frame Let_def split: sum.splits prod.splits)

lemma apply_r1_regularization_frame:
  assumes "apply_r1_regularization env s batch_idx real_imgs = Inr s'"
  shows "path_loss s' = path_loss s" "path_lengths s' = path_lengths s"
    "mean_path_length s' = mean_path_length s" "d_reg_every s' = d_reg_every s"
    "g_reg_every s' = g_reg_every s" "G s' = G s" "optimizer_G s' = optimizer_G s"
  using assms
  by (auto simp: apply_r1_regularization_def backward_D_r1_def optimizer_D_zero_grad_def
      optimizer_D_step_frame backward_frame backward_untouched Let_def split: sum.splits prod.splits if_splits)

lemma update_Generator_frame:
  assumes "update_Generator env s = Inr (l, s')"
  shows "r1_loss s' = r1_loss s" "path_loss s' = path_loss s" "path_lengths s' = path_lengths s"
    "mean_path_length s' = mean_path_length s" "d_reg_every s' = d_reg_every s"
    "g_reg_every s' = g_reg_every s" "params (D s') = params (D s)"
    "optimizer_D s' = optimizer_D s"
  using assms
  by (auto simp: update_Generator_def backward_G_adv_def optimizer_G_zero_grad_def
      optimizer_G_step_frame backward_frame Let_def split: sum.splits prod.splits)

lemma apply_path_length_regularization_frame:
  assumes "apply_path_length_regularization env s batch_idx = Inr s'"
  shows "r1_loss s' = r1_loss s" "d_reg_every s' = d_reg_every s"
    "g_reg_every s' = g_reg_every s" "D s' = D s" "optimizer_D s' = optimizer_D s"
  using assms
  by (auto simp: apply_path_length_regularization_def backward_G_path_def optimizer_G_zero_grad_def
      optimizer_G_step_frame backward_frame backward_untouched Let_def
      split: sum.splits prod.splits if_splits option.splits)

subsection \<open>The blocks of one batch\<close>

lemma backward_G_path_result:
  assumes "backward_G_path env s bs ls mx shrink mpl w gre = Inr ((pl, pm, pls), s')"
  shows "pm = path_mean_of mpl pls" "pl = path_loss_of pls pm"
    "path_loss s' = path_loss s" "mean_path_length s' = mean_path_length s"
  using assms
  by (auto simp: backward_G_path_def backward_frame Let_def
      split: sum.splits prod.splits if_splits option.splits)

lemma apply_path_length_regularization_fires:
  assumes "apply_path_length_regularization env s batch_idx = Inr s'"
    and "batch_idx mod g_reg_every s = 0"
  shows "mean_path_length s' = path_mean_of (mean_path_length s) (path_lengths s')"
    and "path_loss s' = path_loss_of (path_lengths s') (mean_path_length s')"
proof -
  from assms obtain pl pm pls s1 where
    bw: "backward_G_path env (optimizer_G_zero_grad s) (batch_size s) (latent_size s) (mixing s)
           (path_batch_shrink s) (mean_path_length s) (path_regularize s) (g_reg_every s)
         = Inr ((pl, pm, pls), s1)" and
    s': "s' = optimizer_G_step env
                (s1\<lparr>path_loss := pl, mean_path_length := pm, path_lengths := pls\<rparr>)"
    by (auto simp: apply_path_length_regularization_def
        split: sum.splits prod.splits if_splits)
  from s' have "mean_path_length s' = pm" "path_lengths s' = pls" "path_loss s' = pl"
    by (simp_all add: optimizer_G_step_frame)
  with backward_G_path_result(1,2) [OF bw]
  show "mean_path_length s' = path_mean_of (mean_path_length s) (path_lengths s')"
    and "path_loss s' = path_loss_of (path_lengths s') (mean_path_length s')"
    by simp_all
qed

lemma apply_path_length_regularization_skips:
  assumes "apply_path_length_regularization env s batch_idx = Inr s'"
    and "batch_idx mod g_reg_every s \<noteq> 0"
  shows "s' = s"
  using assms by (auto simp: apply_path_length_regularization_def split: if_splits)

lemma apply_r1_regularization_skips:
  assumes "apply_r1_regularization env s batch_idx real_imgs = Inr s'"
    and "batch_idx mod d_reg_every s \<noteq> 0"
  shows "s' = s"
  using assms by (auto simp: apply_r1_regularization_def split: if_splits)

lemma optimizeE:
  assumes "optimize env s batch_idx data = Inr (report, s')"
  obtains d_adv_loss s1 s2 g_adv_loss s3 where
    "update_Discriminator env s data = Inr (d_adv_loss, s1)"
    "apply_r1_regularization env s1 batch_idx data = Inr s2"
    "update_Generator env s2 = Inr (g_adv_loss, s3)"
    "apply_path_length_regularization env s3 batch_idx = Inr s'"
    "report = [d_adv_loss, r1_loss s', g_adv_loss, path_loss s', mean (path_lengths s'),
               mean_path_length s']"
  using assms by (auto simp: optimize_def split: sum.splits prod.splits)

subsection \<open>Running the small instance\<close>

lemmas eval_defs = optimize_def update_Discriminator_def apply_r1_regularization_def
  update_Generator_def apply_path_length_regularization_def backward_D_adv_def backward_D_r1_def
  backward_G_adv_def backward_G_path_def mixing_noise_def backward_def step_def zero_grad_def
  accumulate_grad_def accumulate_def path_batch_size_of_def 
  optimizer_D_zero_grad_def optimizer_D_step_def optimizer_G_zero_grad_def optimizer_G_step_def
  d_adv_loss_of_def g_adv_loss_of_def r1_loss_of_def r1_weighted_of_def path_weighted_of_def
  path_lengths_of_def path_mean_of_def path_loss_of_def sum_sq_def first_or_zero_def
  example_env_def example_trainer_def example_data_def Let_def first_pixel_replicate
  mean_replicate mean_single

lemma example_optimize_0:
  "\<exists>report s'. optimize example_env example_trainer 0 example_data = Inr (report, s')"
  by (simp add: eval_defs)

subsection \<open>The running mean of the path length\<close>

text \<open>
  Claim C1. When the path-regularization block of a batch runs, the stored
  \<^verbatim>\<open>mean_path_length\<close> afterwards is the prior value plus \<open>0.01\<close> times the distance
  from the prior value to the mean of the new path lengths, which is the convex combination
  \<open>0.99 * prior + 0.01 * mean\<close>; the value that \<^verbatim>\<open>backward_G_path\<close> returns is the one
  stored and the one reported in the last entry of the report.
\<close>

theorem mean_path_length_update:
  assumes "optimize env s batch_idx data = Inr (report, s')"
    and "batch_idx mod g_reg_every s = 0"
  shows "mean_path_length s' =
           mean_path_length s + 0.01 * (mean (path_lengths s') - mean_path_length s)
         \<and> mean_path_length s' = mean_path_length s * 0.99 + mean (path_lengths s') * 0.01
         \<and> report ! 5 = mean_path_length s'"
proof -
  from assms(1) obtain d_adv_loss s1 s2 g_adv_loss s3 where
    b1: "update_Discriminator env s data = Inr (d_adv_loss, s1)" and
    b2: "apply_r1_regularization env s1 batch_idx data = Inr s2" and
    b3: "update_Generator env s2 = Inr (g_adv_loss, s3)" and
    b4: "apply_path_length_regularization env s3 batch_idx = Inr s'" and
    rep: "report = [d_adv_loss, r1_loss s', g_adv_loss, path_loss s', mean (path_lengths s'),
               mean_path_length s']"
    by (rule optimizeE)
  have prior: "mean_path_length s3 = mean_path_length s"
    using update_Discriminator_frame(4) [OF b1] apply_r1_regularization_frame(3) [OF b2]
      update_Generator_frame(4) [OF b3] by simp
  have every: "g_reg_every s3 = g_reg_every s"
    using update_Discriminator_frame(6) [OF b1] apply_r1_regularization_frame(5) [OF b2]
      update_Generator_frame(6) [OF b3] by simp
  have "mean_path_length s' = path_mean_of (mean_path_length s3) (path_lengths s')"
    using apply_path_length_regularization_fires(1) [OF b4] assms(2) every by simp
  then have upd: "mean_path_length s' =
      mean_path_length s + 0.01 * (mean (path_lengths s') - mean_path_length s)"
    by (simp add: path_mean_of_def prior)
  then have "mean_path_length s' = mean_path_length s * 0.99 + mean (path_lengths s') * 0.01"
    by (simp add: field_simps)
  with upd rep show ?thesis by simp
qed

theorem mean_path_length_update_witness:
  "\<exists>report s'. optimize example_env example_trainer 0 example_data = Inr (report, s')
     \<and> 0 mod g_reg_every example_trainer = 0
     \<and> mean_path_length s' = 0 * 0.99 + mean (path_lengths s') * 0.01
     \<and> report ! 5 = mean_path_length s'"
proof -
  obtain report s' where
    run: "optimize example_env example_trainer 0 example_data = Inr (report, s')"
    using example_optimize_0 by blast
  have fires: "0 mod g_reg_every example_trainer = 0"
    by (simp add: example_trainer_def)
  have "mean_path_length example_trainer = 0"
    by (simp add: example_trainer_def)
  with mean_path_length_update [OF run fires] run fires show ?thesis
    by auto
qed

subsection \<open>Values kept between regularization batches\<close>

lemma optimize_skips_regularization:
  assumes "optimize env s batch_idx data = Inr (report, s')"
  shows "(batch_idx mod d_reg_every s \<noteq> 0 \<longrightarrow>
            r1_loss s' = r1_loss s \<and> report ! 1 = r1_loss s)
       \<and> (batch_idx mod g_reg_every s \<noteq> 0 \<longrightarrow>
            path_loss s' = path_loss s \<and> path_lengths s' = path_lengths s
            \<and> mean_path_length s' = mean_path_length s
            \<and> report ! 3 = path_loss s \<and> report ! 4 = mean (path_lengths s)
            \<and> report ! 5 = mean_path_length s)"
proof -
  from assms obtain d_adv_loss s1 s2 g_adv_loss s3 where
    b1: "update_Discriminator env s data = Inr (d_adv_loss, s1)" and
    b2: "apply_r1_regularization env s1 batch_idx data = Inr s2" and
    b3: "update_Generator env s2 = Inr (g_adv_loss, s3)" and
    b4: "apply_path_length_regularization env s3 batch_idx = Inr s'" and
    rep: "report = [d_adv_loss, r1_loss s', g_adv_loss, path_loss s', mean (path_lengths s'),
               mean_path_length s']"
    by (rule optimizeE)
  note f1 = update_Discriminator_frame [OF b1]
  note f2 = apply_r1_regularization_frame [OF b2]
  note f3 = update_Generator_frame [OF b3]
  note f4 = apply_path_length_regularization_frame [OF b4]
  have r1_part: "r1_loss s' = r1_loss s \<and> report ! 1 = r1_loss s"
    if skip: "batch_idx mod d_reg_every s \<noteq> 0"
  proof -
    from skip f1(5) have "batch_idx mod d_reg_every s1 \<noteq> 0" by simp
    with b2 have "s2 = s1" by (rule apply_r1_regularization_skips)
    with f1(1) f3(1) f4(1) have "r1_loss s' = r1_loss s" by simp
    with rep show ?thesis by simp
  qed
  have path_part: "path_loss s' = path_loss s \<and> path_lengths s' = path_lengths s
            \<and> mean_path_length s' = mean_path_length s
            \<and> report ! 3 = path_loss s \<and> report ! 4 = mean (path_lengths s)
            \<and> report ! 5 = mean_path_length s"
    if skip: "batch_idx mod g_reg_every s \<noteq> 0"
  proof -
    from skip f1(6) f2(5) f3(6) have "batch_idx mod g_reg_every s3 \<noteq> 0" by simp
    with b4 have "s' = s3" by (rule apply_path_length_regularization_skips)
    with f1(2,3,4) f2(1,2,3) f3(2,3,4)
    have "path_loss s' = path_loss s" "path_lengths s' = path_lengths s"
      "mean_path_length s' = mean_path_length s"
      by simp_all
    with rep show ?thesis by simp
  qed
  from r1_part path_part show ?thesis by blast
qed

lemma train_loop_batch_reports:
  "train_loop env s running_loss batch_idx data_loader =
     (case batch_reports env s batch_idx data_loader of
        Inl e \<Rightarrow> Inl e
      | Inr (reports, s') \<Rightarrow> Inr (foldl (map2 (+)) running_loss reports, s'))"
  by (induction data_loader arbitrary: s running_loss batch_idx)
    (auto split: sum.splits prod.splits)

lemma optimize_cadence:
  assumes "optimize env s batch_idx data = Inr (report, s')"
  shows "d_reg_every s' = d_reg_every s" "g_reg_every s' = g_reg_every s"
proof -
  from assms obtain d_adv_loss s1 s2 g_adv_loss s3 where
    b1: "update_Discriminator env s data = Inr (d_adv_loss, s1)" and
    b2: "apply_r1_regularization env s1 batch_idx data = Inr s2" and
    b3: "update_Generator env s2 = Inr (g_adv_loss, s3)" and
    b4: "apply_path_length_regularization env s3 batch_idx = Inr s'"
    by (rule optimizeE)
  show "d_reg_every s' = d_reg_every s"
    using update_Discriminator_frame(5) [OF b1] apply_r1_regularization_frame(4) [OF b2]
      update_Generator_frame(5) [OF b3] apply_path_length_regularization_frame(2) [OF b4]
    by simp
  show "g_reg_every s' = g_reg_every s"
    using update_Discriminator_frame(6) [OF b1] apply_r1_regularization_frame(5) [OF b2]
      update_Generator_frame(6) [OF b3] apply_path_length_regularization_frame(3) [OF b4]
    by simp
qed

lemma optimize_skips_r1:
  assumes "optimize env s batch_idx data = Inr (report, s')"
    and "batch_idx mod d_reg_every s \<noteq> 0"
  shows "r1_loss s' = r1_loss s" "report ! 1 = r1_loss s"
  using optimize_skips_regularization [OF assms(1)] assms(2) by simp_all

lemma optimize_reports_stored_r1:
  assumes "optimize env s batch_idx data = Inr (report, s')"
  shows "report ! 1 = r1_loss s'"
  using assms by (auto elim: optimizeE)

lemma batch_reports_stale_r1:
  assumes "batch_reports env s batch_idx data_loader = Inr (reports, s')"
    and "\<forall>j < length data_loader. (batch_idx + int j) mod d_reg_every s \<noteq> 0"
  shows "r1_loss s' = r1_loss s \<and> (\<forall>report \<in> set reports. report ! 1 = r1_loss s)"
  using assms
proof (induction data_loader arbitrary: s batch_idx reports)
  case Nil
  then show ?case by simp
next
  case (Cons data rest)
  from Cons.prems(1) obtain losses s1 reports1 where
    first: "optimize env s batch_idx data = Inr (losses, s1)" and
    others: "batch_reports env s1 (batch_idx + 1) rest = Inr (reports1, s')" and
    reports: "reports = losses # reports1"
    by (auto split: sum.splits prod.splits)
  from Cons.prems(2) [rule_format, of 0] have skip: "batch_idx mod d_reg_every s \<noteq> 0"
    by simp
  have later: "\<forall>j < length rest. (batch_idx + 1 + int j) mod d_reg_every s1 \<noteq> 0"
  proof (intro allI impI)
    fix j assume "j < length rest"
    then have "Suc j < length (data # rest)" by simp
    from Cons.prems(2) [rule_format, OF this]
    have "(batch_idx + int (Suc j)) mod d_reg_every s \<noteq> 0" .
    moreover have "batch_idx + 1 + int j = batch_idx + int (Suc j)" by simp
    ultimately show "(batch_idx + 1 + int j) mod d_reg_every s1 \<noteq> 0"
      using optimize_cadence(1) [OF first] by metis
  qed
  from Cons.IH [OF others later] have "r1_loss s' = r1_loss s1"
    and "\<forall>report \<in> set reports1. report ! 1 = r1_loss s1"
    by blast+
  with optimize_skips_r1 [OF first skip] reports show ?case
    by simp
qed

lemma stale_r1_since_last_firing:
  assumes "batch_reports env s batch_idx (data # rest) = Inr (report # reports, s')"
    and "\<forall>j < length rest. (batch_idx + 1 + int j) mod d_reg_every s \<noteq> 0"
  shows "\<forall>later \<in> set reports. later ! 1 = report ! 1"
proof -
  from assms(1) obtain s1 where
    first: "optimize env s batch_idx data = Inr (report, s1)" and
    others: "batch_reports env s1 (batch_idx + 1) rest = Inr (reports, s')"
    by (auto split: sum.splits prod.splits)
  from assms(2) have "\<forall>j < length rest. (batch_idx + 1 + int j) mod d_reg_every s1 \<noteq> 0"
    unfolding optimize_cadence(1) [OF first] .
  from batch_reports_stale_r1 [OF others this]
  have "\<forall>later \<in> set reports. later ! 1 = r1_loss s1" by blast
  with optimize_reports_stored_r1 [OF first] show ?thesis by simp
qed


text \<open>
  Claim C2. On a batch whose index is not a multiple of \<^verbatim>\<open>d_reg_every\<close> the stored
  \<^verbatim>\<open>r1_loss\<close> is left as it was and the second entry of the report is that stored value;
  on a batch whose index is not a multiple of \<^verbatim>\<open>g_reg_every\<close> the stored
  \<^verbatim>\<open>path_loss\<close>, \<^verbatim>\<open>path_lengths\<close> and \<^verbatim>\<open>mean_path_length\<close> are left as they were
  and the last three entries of the report are computed from them. Hence in the loop of
  \<^verbatim>\<open>train\<close> every batch of a stretch without an R1 pass reports the R1 loss of the batch
  before the stretch.
\<close>

theorem stale_values_reused:
  "(optimize env s batch_idx data = Inr (report, s') \<longrightarrow>
      (batch_idx mod d_reg_every s \<noteq> 0 \<longrightarrow>
         r1_loss s' = r1_loss s \<and> report ! 1 = r1_loss s)
      \<and> (batch_idx mod g_reg_every s \<noteq> 0 \<longrightarrow>
         path_loss s' = path_loss s \<and> path_lengths s' = path_lengths s
         \<and> mean_path_length s' = mean_path_length s
         \<and> report ! 3 = path_loss s \<and> report ! 4 = mean (path_lengths s)
         \<and> report ! 5 = mean_path_length s))
   \<and> (batch_reports env s batch_idx (data # rest) = Inr (report # reports, s'') \<longrightarrow>
      (\<forall>j < length rest. (batch_idx + 1 + int j) mod d_reg_every s \<noteq> 0) \<longrightarrow>
      (\<forall>later \<in> set reports. later ! 1 = report ! 1))"
  using optimize_skips_regularization [of env s batch_idx data report s']
    stale_r1_since_last_firing [of env s batch_idx data rest report reports s'']
  by blast

lemma example_optimize_1:
  "\<exists>report s'. optimize example_env example_trainer 1 example_data = Inr (report, s')"
  by (simp add: eval_defs)

lemma example_two_batches:
  "\<exists>report later s'. batch_reports example_env example_trainer 0 [example_data, example_data]
      = Inr ([report, later], s')"
  by (simp add: eval_defs)

theorem stale_values_reused_witness:
  "(\<exists>report s'. optimize example_env example_trainer 1 example_data = Inr (report, s')
      \<and> 1 mod d_reg_every example_trainer \<noteq> 0 \<and> 1 mod g_reg_every example_trainer \<noteq> 0
      \<and> r1_loss s' = 0 \<and> report ! 1 = 0 \<and> path_loss s' = 0 \<and> path_lengths s' = [0]
      \<and> mean_path_length s' = 0 \<and> report ! 3 = 0 \<and> report ! 4 = 0 \<and> report ! 5 = 0)
   \<and> (\<exists>report later s''.
        batch_reports example_env example_trainer 0 [example_data, example_data]
          = Inr ([report, later], s'')
        \<and> (0 + 1 + int 0) mod d_reg_every example_trainer \<noteq> 0
        \<and> later ! 1 = report ! 1)"
proof -
  obtain report s' where
    run: "optimize example_env example_trainer 1 example_data = Inr (report, s')"
    using example_optimize_1 by blast
  have skips: "1 mod d_reg_every example_trainer \<noteq> 0" "1 mod g_reg_every example_trainer \<noteq> 0"
    by (simp_all add: example_trainer_def)
  have start: "r1_loss example_trainer = 0" "path_loss example_trainer = 0"
    "path_lengths example_trainer = [0]" "mean_path_length example_trainer = 0"
    by (simp_all add: example_trainer_def)
  from stale_values_reused [of example_env example_trainer 1 example_data report s']
    run skips start
  have one: "r1_loss s' = 0 \<and> report ! 1 = 0 \<and> path_loss s' = 0 \<and> path_lengths s' = [0]
      \<and> mean_path_length s' = 0 \<and> report ! 3 = 0 \<and> report ! 4 = 0 \<and> report ! 5 = 0"
    by (simp add: mean_single)
  obtain first later s'' where
    two: "batch_reports example_env example_trainer 0 [example_data, example_data]
            = Inr ([first, later], s'')"
    using example_two_batches by blast
  have quiet: "\<forall>j < length [example_data]. (0 + 1 + int j) mod d_reg_every example_trainer \<noteq> 0"
    by (simp add: example_trainer_def)
  from stale_values_reused [of example_env example_trainer 0 example_data first s''
      "[example_data]" "[later]" s''] two quiet
  have "later ! 1 = first ! 1"
    by simp
  moreover from quiet have "(0 + 1 + int 0) mod d_reg_every example_trainer \<noteq> 0"
    by simp
  ultimately show ?thesis using one run skips two by blast
qed

subsection \<open>The R1 block\<close>

text \<open>
  Claim C4. The R1 block runs exactly when the batch index is a multiple of
  \<^verbatim>\<open>d_reg_every\<close>: then the scalar handed to the backward pass is
  \<open>r1 / 2 * r1_loss * d_reg_every\<close> plus zero times the first prediction, where
  \<open>r1_loss\<close> is the mean over the batch of the per-sample sum of squared input gradients;
  on any other index the block changes nothing.
\<close>

theorem r1_step_cadence:
  assumes "apply_r1_regularization env s batch_idx real_imgs = Inr s'"
  shows "(batch_idx mod d_reg_every s = 0 \<longrightarrow>
            r1_loss s' = mean (map sum_sq (input_grad env (params (D s)) real_imgs))
            \<and> backward_trace s' =
                backward_trace s @ [r1 s / 2 * r1_loss s' * real_of_int (d_reg_every s)
                    + 0 * first_or_zero (D_forward env (params (D s)) real_imgs)]
            \<and> backward_trace s' =
                backward_trace s @ [r1 s / 2 * r1_loss s' * real_of_int (d_reg_every s)])
       \<and> (batch_idx mod d_reg_every s \<noteq> 0 \<longrightarrow> s' = s)"
proof -
  have fires: "r1_loss s' = mean (map sum_sq (input_grad env (params (D s)) real_imgs))
            \<and> backward_trace s' =
                backward_trace s @ [r1 s / 2 * r1_loss s' * real_of_int (d_reg_every s)
                    + 0 * first_or_zero (D_forward env (params (D s)) real_imgs)]"
    if "batch_idx mod d_reg_every s = 0"
    using assms that
    by (auto simp: apply_r1_regularization_def backward_D_r1_def optimizer_D_zero_grad_def
        optimizer_D_step_frame backward_frame r1_loss_of_def r1_weighted_of_def zero_grad_def
        Let_def split: sum.splits prod.splits if_splits)
  have skips: "s' = s" if "batch_idx mod d_reg_every s \<noteq> 0"
    using assms that by (rule apply_r1_regularization_skips)
  from fires skips show ?thesis by auto
qed


lemma example_r1_0:
  "\<exists>s'. apply_r1_regularization example_env example_trainer 0 example_data = Inr s'"
  by (simp add: eval_defs)

lemma example_r1_1:
  "\<exists>s'. apply_r1_regularization example_env example_trainer 1 example_data = Inr s'"
  by (simp add: eval_defs)

theorem r1_step_cadence_witness:
  "\<exists>s0 s1. apply_r1_regularization example_env example_trainer 0 example_data = Inr s0
     \<and> apply_r1_regularization example_env example_trainer 1 example_data = Inr s1
     \<and> 0 mod d_reg_every example_trainer = 0 \<and> 1 mod d_reg_every example_trainer \<noteq> 0
     \<and> r1_loss s0 = 4 \<and> backward_trace s0 = [10 / 2 * 4 * 16]
     \<and> s1 = example_trainer"
proof -
  obtain s0 where run0: "apply_r1_regularization example_env example_trainer 0 example_data = Inr s0"
    using example_r1_0 by blast
  obtain s1 where run1: "apply_r1_regularization example_env example_trainer 1 example_data = Inr s1"
    using example_r1_1 by blast
  have cadence: "0 mod d_reg_every example_trainer = 0" "1 mod d_reg_every example_trainer \<noteq> 0"
    by (simp_all add: example_trainer_def)
  have grads: "mean (map sum_sq (input_grad example_env (params (D example_trainer)) example_data)) = 4"
    by (simp add: example_env_def example_trainer_def example_data_def mean_replicate sum_sq_def)
  have start: "r1 example_trainer = 10" "d_reg_every example_trainer = 16"
    "backward_trace example_trainer = []"
    by (simp_all add: example_trainer_def)
  from r1_step_cadence [OF run0] cadence(1) grads start
  have "r1_loss s0 = 4" "backward_trace s0 = [10 / 2 * 4 * 16]"
    by simp_all
  moreover from r1_step_cadence [OF run1] cadence(2) have "s1 = example_trainer"
    by simp
  ultimately show ?thesis using run0 run1 cadence by auto
qed

subsection \<open>The batch size of the path-regularization pass\<close>

lemma backward_G_path_noise:
  assumes "backward_G_path env s bs ls mx shrink mpl w gre = Inr (res, s')"
  shows "\<exists>n noise. path_batch_size_of bs shrink = Inr n
           \<and> mixing_noise env n ls mx (rng s) = Inr (noise, rng s')"
  using assms
  by (auto simp: backward_G_path_def backward_frame Let_def
      split: sum.splits prod.splits if_splits option.splits)

text \<open>
  Claim C5. For a batch size and a shrink factor of at least one, the pass draws its noise
  with batch size \<open>max 1 (batch_size div path_batch_shrink)\<close>, which lies between one
  and the batch size; 16 shrunk by 2 gives 8 and 16 shrunk by 32 gives 1.
\<close>

theorem path_batch_size:
  assumes "1 \<le> bs" and "1 \<le> shrink"
  shows "path_batch_size_of bs shrink = Inr (max 1 (bs div shrink))
       \<and> 1 \<le> max 1 (bs div shrink) \<and> max 1 (bs div shrink) \<le> bs
       \<and> path_batch_size_of 16 2 = Inr 8 \<and> path_batch_size_of 16 32 = Inr 1
       \<and> (backward_G_path env s bs ls mx shrink mpl w gre = Inr (res, s') \<longrightarrow>
            (\<exists>noise. mixing_noise env (max 1 (bs div shrink)) ls mx (rng s) = Inr (noise, rng s')))"
proof -
  from assms(2) have size: "path_batch_size_of bs shrink = Inr (max 1 (bs div shrink))"
    by (simp add: path_batch_size_of_def)
  have "bs div shrink \<le> bs div 1"
    using assms by (intro zdiv_mono2) simp_all
  then have "bs div shrink \<le> bs"
    by simp
  with assms(1) have bounds: "1 \<le> max 1 (bs div shrink)" "max 1 (bs div shrink) \<le> bs"
    by simp_all
  have examples: "path_batch_size_of 16 2 = Inr 8" "path_batch_size_of 16 32 = Inr 1"
    by (simp_all add: path_batch_size_of_def)
  have "\<exists>noise. mixing_noise env (max 1 (bs div shrink)) ls mx (rng s) = Inr (noise, rng s')"
    if "backward_G_path env s bs ls mx shrink mpl w gre = Inr (res, s')"
    using backward_G_path_noise [OF that] size by auto
  with size bounds examples show ?thesis by blast
qed

lemma example_path_pass:
  "\<not> isl (backward_G_path example_env example_trainer 16 512 0.9 2 0 2 4)"
  by (simp add: eval_defs)

theorem path_batch_size_witness:
  "(1::int) \<le> 16 \<and> (1::int) \<le> 2 \<and> path_batch_size_of 16 2 = Inr (max 1 (16 div 2))
     \<and> max 1 (16 div 2) = (8::int)
     \<and> (\<exists>res s' noise. backward_G_path example_env example_trainer 16 512 0.9 2 0 2 4 = Inr (res, s')
          \<and> mixing_noise example_env 8 512 0.9 (rng example_trainer) = Inr (noise, rng s'))"
proof -
  obtain res s' where
    run: "backward_G_path example_env example_trainer 16 512 0.9 2 0 2 4 = Inr (res, s')"
    using example_path_pass
    by (cases "backward_G_path example_env example_trainer 16 512 0.9 2 0 2 4") auto
  have h: "(1::int) \<le> 16" "(1::int) \<le> 2" by simp_all
  from path_batch_size [OF h, of example_env example_trainer 512 "0.9" 0 2 4 res s'] run
  have "path_batch_size_of 16 2 = Inr (max 1 (16 div 2))"
    and "\<exists>noise. mixing_noise example_env (max 1 (16 div 2)) 512 0.9 (rng example_trainer)
            = Inr (noise, rng s')"
    by blast+
  then obtain noise where
    "mixing_noise example_env 8 512 0.9 (rng example_trainer) = Inr (noise, rng s')"
    by auto
  with run have "\<exists>res s' noise.
      backward_G_path example_env example_trainer 16 512 0.9 2 0 2 4 = Inr (res, s')
      \<and> mixing_noise example_env 8 512 0.9 (rng example_trainer) = Inr (noise, rng s')"
    by blast
  then show ?thesis by (simp add: path_batch_size_of_def)
qed

subsection \<open>Optimizer steps touch one network\<close>

text \<open>
  Claim C9. A step of the discriminator's optimizer leaves the generator as it is and a
  step of the generator's optimizer leaves the discriminator as it is; so each of the two
  discriminator blocks of a batch returns the generator's parameters unchanged, and each of
  the two generator blocks returns the discriminator's parameters unchanged.
\<close>

theorem optimizer_steps_frame:
  "G (optimizer_D_step env s) = G s
   \<and> D (optimizer_G_step env s) = D s
   \<and> (update_Discriminator env s data = Inr (l1, s1) \<longrightarrow> params (G s1) = params (G s))
   \<and> (apply_r1_regularization env s batch_idx data = Inr s2 \<longrightarrow> params (G s2) = params (G s))
   \<and> (update_Generator env s = Inr (l3, s3) \<longrightarrow> params (D s3) = params (D s))
   \<and> (apply_path_length_regularization env s batch_idx = Inr s4 \<longrightarrow> params (D s4) = params (D s))"
  using update_Discriminator_frame(7) [of env s data l1 s1]
    apply_r1_regularization_frame(6) [of env s batch_idx data s2]
    update_Generator_frame(7) [of env s l3 s3]
    apply_path_length_regularization_frame(4) [of env s batch_idx s4]
  by (auto simp: optimizer_D_step_frame optimizer_G_step_frame)

lemma example_blocks:
  "\<exists>l1 s1. update_Discriminator example_env example_trainer example_data = Inr (l1, s1)"
  "\<exists>l3 s3. update_Generator example_env example_trainer = Inr (l3, s3)"
  "\<exists>s4. apply_path_length_regularization example_env example_trainer 0 = Inr s4"
  by (simp_all add: eval_defs)

theorem optimizer_steps_frame_witness:
  "\<exists>l1 s1 s2 l3 s3 s4.
     update_Discriminator example_env example_trainer example_data = Inr (l1, s1)
     \<and> apply_r1_regularization example_env example_trainer 0 example_data = Inr s2
     \<and> update_Generator example_env example_trainer = Inr (l3, s3)
     \<and> apply_path_length_regularization example_env example_trainer 0 = Inr s4
     \<and> params (G s1) = [1] \<and> params (G s2) = [1] \<and> params (D s3) = [2] \<and> params (D s4) = [2]"
proof -
  obtain l1 s1 where r1: "update_Discriminator example_env example_trainer example_data = Inr (l1, s1)"
    using example_blocks(1) by blast
  obtain s2 where r2: "apply_r1_regularization example_env example_trainer 0 example_data = Inr s2"
    using example_r1_0 by blast
  obtain l3 s3 where r3: "update_Generator example_env example_trainer = Inr (l3, s3)"
    using example_blocks(2) by blast
  obtain s4 where r4: "apply_path_length_regularization example_env example_trainer 0 = Inr s4"
    using example_blocks(3) by blast
  have start: "params (G example_trainer) = [1]" "params (D example_trainer) = [2]"
    by (simp_all add: example_trainer_def)
  from optimizer_steps_frame [of example_env example_trainer example_data l1 s1 0 s2 l3 s3 s4]
    r1 r2 r3 r4 start
  have "params (G s1) = [1]" "params (G s2) = [1]" "params (D s3) = [2]" "params (D s4) = [2]"
    by simp_all
  with r1 r2 r3 r4 show ?thesis by blast
qed

subsection \<open>Construction\<close>

lemma reg_ratio_Inr:
  assumes "reg_ratio every = Inr ratio"
  shows "every \<noteq> - 1" "ratio = real_of_int every / real_of_int (every + 1)"
    "0 \<le> ratio" "ratio = 0 \<longleftrightarrow> every = 0" "ratio \<noteq> 1"
proof -
  from assms show e: "every \<noteq> - 1" and r: "ratio = real_of_int every / real_of_int (every + 1)"
    by (auto simp: reg_ratio_def split: if_splits)
  from e consider "0 \<le> every" | "every \<le> - 2" by linarith
  then show "0 \<le> ratio"
  proof cases
    case 1
    then show ?thesis by (simp add: r)
  next
    case 2
    then have "real_of_int every \<le> 0" "real_of_int (every + 1) \<le> 0" by simp_all
    then show ?thesis unfolding r by (rule divide_nonpos_nonpos)
  qed
  from e show "ratio = 0 \<longleftrightarrow> every = 0"
    by (simp add: r)
  from e have "real_of_int (every + 1) \<noteq> 0" by simp
  then show "ratio \<noteq> 1"
    by (simp add: r)
qed

lemma reg_ratio_Inl: "reg_ratio every = Inl e \<longleftrightarrow> every = - 1 \<and> e = ZeroDivisionError"
  by (auto simp: reg_ratio_def)

lemma make_optimizer_Inr:
  assumes "0 \<le> ratio"
  shows "make_optimizer lr0 ratio = Inr opt \<longleftrightarrow>
           0 < ratio \<and> 0 \<le> lr0 \<and>
           opt = \<lparr>adam_lr = lr0 * ratio, adam_betas = (0, 0.99 powr ratio), adam_state = []\<rparr>"
proof (cases "ratio = 0")
  case True
  then show ?thesis by (simp add: make_optimizer_def zero_pow_def Adam_def)
next
  case False
  with assms have pos: "0 < ratio" by simp
  then have "\<not> 1 \<le> (0.99::real) powr ratio"
    by (intro powr_not_ge_1) simp_all
  moreover from pos have "lr0 * ratio < 0 \<longleftrightarrow> lr0 < 0"
    by (simp add: mult_less_0_iff)
  ultimately show ?thesis using pos
    by (auto simp: make_optimizer_def zero_pow_def Adam_def)
qed

lemma initE:
  assumes "init env r cfg = Inr s"
  obtains g_reg_ratio d_reg_ratio where
    "reg_ratio (cfg_g_reg_every cfg) = Inr g_reg_ratio"
    "reg_ratio (cfg_d_reg_every cfg) = Inr d_reg_ratio"
    "make_optimizer (cfg_lr cfg) g_reg_ratio = Inr (optimizer_G s)"
    "make_optimizer (cfg_lr cfg) d_reg_ratio = Inr (optimizer_D s)"
    "0 \<le> cfg_n_sample cfg" "batch_size s = cfg_batch_size cfg"
    "grad (G s) = None" "p_requires_grad (G s)" "lr s = cfg_lr cfg"
    "g_reg_every s = cfg_g_reg_every cfg" "d_reg_every s = cfg_d_reg_every cfg"
  using assms
  by (auto simp: init_def split: if_splits prod.splits sum.splits)

text \<open>
  Claim C10. A trainer that was constructed has a generator optimizer with learning rate
  \<open>lr * r\<close> and betas \<open>(0 ** r, 0.99 ** r)\<close> for \<open>r = g_reg_every / (g_reg_every + 1)\<close>,
  where \<open>0 ** r\<close> is zero, and a discriminator optimizer built the same way from
  \<^verbatim>\<open>d_reg_every\<close>; unless the configured learning rate is zero, neither optimizer uses
  it unscaled.
\<close>

theorem init_optimizers:
  assumes "init env r cfg = Inr s"
  shows "adam_lr (optimizer_G s) =
           cfg_lr cfg * (real_of_int (cfg_g_reg_every cfg) / real_of_int (cfg_g_reg_every cfg + 1))
       \<and> adam_betas (optimizer_G s) =
           (0, 0.99 powr (real_of_int (cfg_g_reg_every cfg) / real_of_int (cfg_g_reg_every cfg + 1)))
       \<and> zero_pow (real_of_int (cfg_g_reg_every cfg) / real_of_int (cfg_g_reg_every cfg + 1)) = Inr 0
       \<and> adam_lr (optimizer_D s) =
           cfg_lr cfg * (real_of_int (cfg_d_reg_every cfg) / real_of_int (cfg_d_reg_every cfg + 1))
       \<and> adam_betas (optimizer_D s) =
           (0, 0.99 powr (real_of_int (cfg_d_reg_every cfg) / real_of_int (cfg_d_reg_every cfg + 1)))
       \<and> zero_pow (real_of_int (cfg_d_reg_every cfg) / real_of_int (cfg_d_reg_every cfg + 1)) = Inr 0
       \<and> (cfg_lr cfg \<noteq> 0 \<longrightarrow>
            adam_lr (optimizer_G s) \<noteq> cfg_lr cfg \<and> adam_lr (optimizer_D s) \<noteq> cfg_lr cfg)"
proof -
  from assms obtain g_reg_ratio d_reg_ratio where
    g: "reg_ratio (cfg_g_reg_every cfg) = Inr g_reg_ratio" and
    d: "reg_ratio (cfg_d_reg_every cfg) = Inr d_reg_ratio" and
    og: "make_optimizer (cfg_lr cfg) g_reg_ratio = Inr (optimizer_G s)" and
    od: "make_optimizer (cfg_lr cfg) d_reg_ratio = Inr (optimizer_D s)"
    by (rule initE)
  note gr = reg_ratio_Inr [OF g] and dr = reg_ratio_Inr [OF d]
  from og gr(3) have G: "0 < g_reg_ratio"
    "optimizer_G s = \<lparr>adam_lr = cfg_lr cfg * g_reg_ratio,
       adam_betas = (0, 0.99 powr g_reg_ratio), adam_state = []\<rparr>"
    by (simp_all add: make_optimizer_Inr)
  from od dr(3) have D: "0 < d_reg_ratio"
    "optimizer_D s = \<lparr>adam_lr = cfg_lr cfg * d_reg_ratio,
       adam_betas = (0, 0.99 powr d_reg_ratio), adam_state = []\<rparr>"
    by (simp_all add: make_optimizer_Inr)
  have zg: "zero_pow g_reg_ratio = Inr 0" and zd: "zero_pow d_reg_ratio = Inr 0"
    using G(1) D(1) by (simp_all add: zero_pow_def)
  have scaled: "adam_lr (optimizer_G s) \<noteq> cfg_lr cfg \<and> adam_lr (optimizer_D s) \<noteq> cfg_lr cfg"
    if "cfg_lr cfg \<noteq> 0"
    using that gr(5) dr(5) by (simp add: G(2) D(2))
  from G(2) D(2) zg zd scaled show ?thesis
    unfolding gr(2) [symmetric] dr(2) [symmetric] by simp
qed

lemma example_init: "init example_env 0 default_config = Inr example_trainer"
  by (simp add: init_def reg_ratio_def make_optimizer_def zero_pow_def Adam_def
      example_env_def default_config_def example_trainer_def powr_not_ge_1)

theorem init_optimizers_witness:
  "init example_env 0 default_config = Inr example_trainer
   \<and> adam_lr (optimizer_G example_trainer) = 0.001 * (4 / 5)
   \<and> adam_betas (optimizer_G example_trainer) = (0, 0.99 powr (4 / 5))
   \<and> adam_lr (optimizer_D example_trainer) = 0.001 * (16 / 17)
   \<and> adam_betas (optimizer_D example_trainer) = (0, 0.99 powr (16 / 17))
   \<and> cfg_lr default_config \<noteq> 0
   \<and> adam_lr (optimizer_G example_trainer) \<noteq> cfg_lr default_config
   \<and> adam_lr (optimizer_D example_trainer) \<noteq> cfg_lr default_config"
  using init_optimizers [OF example_init] example_init
  by (simp add: default_config_def)

lemma make_optimizer_isl:
  assumes "0 \<le> ratio"
  shows "isl (make_optimizer lr0 ratio) \<longleftrightarrow> ratio = 0 \<or> lr0 < 0"
proof (cases "make_optimizer lr0 ratio")
  case (Inl e)
  have "\<not> (0 < ratio \<and> 0 \<le> lr0)"
  proof
    assume "0 < ratio \<and> 0 \<le> lr0"
    with make_optimizer_Inr [OF assms, of lr0] have "\<exists>opt. make_optimizer lr0 ratio = Inr opt"
      by simp
    with Inl show False by simp
  qed
  with assms Inl show ?thesis by auto
next
  case (Inr opt)
  with make_optimizer_Inr [OF assms, of lr0 opt] show ?thesis by auto
qed

text \<open>
  Claim C7, which the code does not satisfy as stated; the configurations that show it
  follow the theorem. What holds is this. Construction fails exactly when \<^verbatim>\<open>n_sample\<close> or the
  learning rate is negative or one of the two cadences is 0 or -1. A cadence of -2 or less
  and any batch size, zero and negative ones too, are accepted: neither is checked.
\<close>

theorem init_fails_iff:
  "isl (init env r cfg) \<longleftrightarrow>
     cfg_n_sample cfg < 0 \<or> cfg_lr cfg < 0
     \<or> cfg_g_reg_every cfg = 0 \<or> cfg_g_reg_every cfg = - 1
     \<or> cfg_d_reg_every cfg = 0 \<or> cfg_d_reg_every cfg = - 1"
proof (cases "cfg_n_sample cfg < 0")
  case True
  then show ?thesis by (simp add: init_def)
next
  case sample: False
  show ?thesis
  proof (cases "reg_ratio (cfg_g_reg_every cfg)")
    case (Inl e)
    then have "cfg_g_reg_every cfg = - 1" by (simp add: reg_ratio_Inl)
    with Inl sample show ?thesis by (simp add: init_def split: prod.splits)
  next
    case g: (Inr g_reg_ratio)
    note gr = reg_ratio_Inr [OF g]
    show ?thesis
    proof (cases "reg_ratio (cfg_d_reg_every cfg)")
      case (Inl e)
      then have "cfg_d_reg_every cfg = - 1" by (simp add: reg_ratio_Inl)
      with Inl g sample show ?thesis by (simp add: init_def split: prod.splits)
    next
      case d: (Inr d_reg_ratio)
      note dr = reg_ratio_Inr [OF d]
      have "isl (init env r cfg) \<longleftrightarrow>
              isl (make_optimizer (cfg_lr cfg) g_reg_ratio)
              \<or> isl (make_optimizer (cfg_lr cfg) d_reg_ratio)"
        using sample g d by (simp add: init_def split: prod.splits sum.splits)
      also have "\<dots> \<longleftrightarrow> (g_reg_ratio = 0 \<or> cfg_lr cfg < 0) \<or> (d_reg_ratio = 0 \<or> cfg_lr cfg < 0)"
        using gr(3) dr(3) by (simp add: make_optimizer_isl)
      finally show ?thesis
        using sample gr(1,4) dr(1,4) by auto
    qed
  qed
qed

theorem init_fails_iff_witness:
  "isl (init example_env 0 (default_config\<lparr>cfg_g_reg_every := 0\<rparr>))
   \<and> isl (init example_env 0 (default_config\<lparr>cfg_d_reg_every := - 1\<rparr>))
   \<and> \<not> isl (init example_env 0 default_config)"
  using init_fails_iff [of example_env 0 "default_config\<lparr>cfg_g_reg_every := 0\<rparr>"]
    init_fails_iff [of example_env 0 "default_config\<lparr>cfg_d_reg_every := - 1\<rparr>"]
    init_fails_iff [of example_env 0 default_config]
  by (simp add: default_config_def)

text \<open>
  The default configuration with batch size 0, and with generator cadence -2, is accepted.
\<close>

theorem init_accepts_invalid_config:
  "cfg_batch_size (default_config\<lparr>cfg_batch_size := 0\<rparr>) \<le> 0
   \<and> \<not> isl (init example_env 0 (default_config\<lparr>cfg_batch_size := 0\<rparr>))
   \<and> cfg_g_reg_every (default_config\<lparr>cfg_g_reg_every := - 2\<rparr>) \<le> 0
   \<and> \<not> isl (init example_env 0 (default_config\<lparr>cfg_g_reg_every := - 2\<rparr>))"
  by (simp add: init_def reg_ratio_def make_optimizer_def zero_pow_def Adam_def
      example_env_def default_config_def powr_not_ge_1 power2_eq_square)

subsection \<open>Gradient buffers during the discriminator step\<close>

text \<open>
  The generator of a fresh trainer has no gradient buffer, and nothing in \<^verbatim>\<open>optimize\<close>
  calls \<^verbatim>\<open>requires_grad\<close>, so its parameters require a gradient throughout. The backward
  pass of the discriminator's adversarial loss therefore gives it one. Had the generator
  been frozen with \<^verbatim>\<open>requires_grad(self.G, False)\<close> first, the pass would have left its
  buffer alone.
\<close>

lemma backward_D_adv_grad_G:
  assumes "backward_D_adv env s real_imgs bs ls mx = Inr (l, s')" and "p_requires_grad (G s)"
  shows "grad (G s') \<noteq> None"
  using assms
  by (auto simp: backward_D_adv_def backward_def accumulate_grad_def accumulate_def Let_def
      split: sum.splits prod.splits option.splits)

lemma backward_D_adv_frozen_generator:
  assumes "backward_D_adv env (s\<lparr>G := requires_grad (G s) False\<rparr>) real_imgs bs ls mx = Inr (l, s')"
  shows "grad (G s') = grad (G s)"
  using assms
  by (auto simp: backward_D_adv_def backward_def accumulate_grad_def requires_grad_def Let_def
      split: sum.splits prod.splits)

lemma optimize_requires_grad:
  assumes "optimize env s batch_idx data = Inr (report, s')"
  shows "p_requires_grad (G s') = p_requires_grad (G s)"
proof -
  from assms obtain d_adv_loss s1 s2 g_adv_loss s3 where
    b1: "update_Discriminator env s data = Inr (d_adv_loss, s1)" and
    b2: "apply_r1_regularization env s1 batch_idx data = Inr s2" and
    b3: "update_Generator env s2 = Inr (g_adv_loss, s3)" and
    b4: "apply_path_length_regularization env s3 batch_idx = Inr s'"
    by (rule optimizeE)
  from b3 have "p_requires_grad (G s3) = p_requires_grad (G s2)"
    by (auto simp: update_Generator_def backward_G_adv_def optimizer_G_zero_grad_def
        optimizer_G_step_frame backward_frame zero_grad_def Let_def
        split: sum.splits prod.splits)
  moreover from b4 have "p_requires_grad (G s') = p_requires_grad (G s3)"
    by (auto simp: apply_path_length_regularization_def backward_G_path_def
        optimizer_G_zero_grad_def optimizer_G_step_frame backward_frame zero_grad_def Let_def
        split: sum.splits prod.splits if_splits option.splits)
  ultimately show ?thesis
    using update_Discriminator_frame(9) [OF b1] apply_r1_regularization_frame(6) [OF b2]
    by simp
qed

lemma update_Discriminator_grad_G:
  assumes "init env r cfg = Inr s" and "update_Discriminator env s data = Inr (l, s')"
  shows "grad (G s) = None" "grad (G s') \<noteq> None"
proof -
  from assms(1) have fresh: "grad (G s) = None" and rg: "p_requires_grad (G s)"
    by (auto elim: initE)
  from fresh show "grad (G s) = None" .
  from assms(2) obtain s1 where
    bw: "backward_D_adv env (optimizer_D_zero_grad s) data (batch_size s) (latent_size s) (mixing s)
           = Inr (l, s1)" and s': "s' = optimizer_D_step env s1"
    by (auto simp: update_Discriminator_def split: sum.splits prod.splits)
  from rg have "p_requires_grad (G (optimizer_D_zero_grad s))"
    by (simp add: optimizer_D_zero_grad_def)
  with bw have "grad (G s1) \<noteq> None" by (rule backward_D_adv_grad_G)
  with s' show "grad (G s') \<noteq> None" by (simp add: optimizer_D_step_frame)
qed

text \<open>
  Claim C3 asks that the generator's gradient buffers are as before after the
  discriminator's adversarial step. On the small instance the buffer is empty before the
  step and holds the gradient \<open>[1]\<close> after \<^verbatim>\<open>backward_D_adv\<close>, and still after the
  optimizer step that follows.
\<close>

theorem discriminator_step_reaches_generator:
  "grad (G example_trainer) = None
   \<and> map_sum id (\<lambda>x. grad (G (snd x)))
        (backward_D_adv example_env example_trainer example_data 16 512 0.9) = Inr (Some [1])
   \<and> map_sum id (\<lambda>x. grad (G (snd x)))
        (update_Discriminator example_env example_trainer example_data) = Inr (Some [1])"
  by (simp add: eval_defs)

subsection \<open>An epoch without batches\<close>

text \<open>
  Claim C8, which the code does not satisfy as stated; the run that shows it follows the
  theorem. What holds is this. On an empty data source \<^verbatim>\<open>train\<close> raises nothing: it returns the
  trainer unchanged and a report whose six entries are NaN, the result of dividing
  \<open>0.0\<close> by a count of zero.
\<close>

theorem train_empty:
  "train env s [] = Inr ([NaN, NaN, NaN, NaN, NaN, NaN], s)"
  by (simp add: train_def np_divide_def)

text \<open>The small instance on an empty data source returns normally.\<close>

theorem train_empty_no_error:
  "\<not> isl (train example_env example_trainer [])
   \<and> train example_env example_trainer [] = Inr ([NaN, NaN, NaN, NaN, NaN, NaN], example_trainer)"
  by (simp add: train_def np_divide_def)

subsection \<open>Checkpoints\<close>

lemma net_paths_differ:
  "path_join d (net_filename ''Generator'' e) \<noteq> path_join d (net_filename ''Discriminator'' e)"
  by (simp add: path_join_def net_filename_def)

text \<open>
  Claim C6, which the code does not satisfy as stated; the round trip that shows it closes
  this section. What holds is this. \<^verbatim>\<open>save\<close> followed by \<^verbatim>\<open>load\<close> at the same epoch label,
  into a trainer with the same log directory and networks of the same size, restores the
  parameters of the generator and of the discriminator and nothing else: every other field
  of the loading trainer, the optimizers and the scalars \<^verbatim>\<open>mean_path_length\<close>,
  \<^verbatim>\<open>r1_loss\<close>, \<^verbatim>\<open>path_loss\<close> among them, stays as it was.
\<close>

theorem checkpoint_round_trip:
  assumes "log_dir s' = log_dir s"
    and "length (params (G s')) = length (params (G s))"
    and "length (params (D s')) = length (params (D s))"
  shows "load s' (save s fs epoch_label) epoch_label =
           Inr (s'\<lparr>G := (G s')\<lparr>params := params (G s)\<rparr>, D := (D s')\<lparr>params := params (D s)\<rparr>\<rparr>)"
  using assms net_paths_differ [of "log_dir s" epoch_label]
  by (simp add: load_def save_def load_network_def save_network_def)

lemma example_after_batch_fields:
  "mean_path_length example_after_batch = 1 / 100"
  "r1_loss example_after_batch = (4248 / 2125)\<^sup>2"
  "path_loss example_after_batch = (99 / 100)\<^sup>2"
  "params (G example_after_batch) = [624 / 625]"
  "params (D example_after_batch) = [4246 / 2125]"
  "log_dir example_after_batch = ''logs''"
  by (simp_all add: example_after_batch_def eval_defs)

theorem checkpoint_round_trip_witness:
  "log_dir example_trainer = log_dir example_after_batch
   \<and> length (params (G example_trainer)) = length (params (G example_after_batch))
   \<and> length (params (D example_trainer)) = length (params (D example_after_batch))
   \<and> load example_trainer (save example_after_batch Map.empty ''1'') ''1'' =
       Inr (example_trainer\<lparr>G := (G example_trainer)\<lparr>params := [624 / 625]\<rparr>,
                            D := (D example_trainer)\<lparr>params := [4246 / 2125]\<rparr>\<rparr>)"
proof -
  have h: "log_dir example_trainer = log_dir example_after_batch"
    "length (params (G example_trainer)) = length (params (G example_after_batch))"
    "length (params (D example_trainer)) = length (params (D example_after_batch))"
    by (simp_all add: example_after_batch_fields) (simp_all add: example_trainer_def)
  from checkpoint_round_trip [OF h, of Map.empty "''1''"] h show ?thesis
    by (simp add: example_after_batch_fields)
qed

text \<open>
  The trainer after its first batch has a running mean of \<open>1 / 100\<close>. Saved and loaded
  into a fresh trainer, the three scalars are those of the fresh trainer, so the loaded
  trainer is not the saved one.
\<close>

theorem checkpoint_drops_scalars:
  "mean_path_length example_after_batch = 1 / 100
   \<and> map_sum id (\<lambda>s. (mean_path_length s, r1_loss s, path_loss s))
        (load example_trainer (save example_after_batch Map.empty ''1'') ''1'') = Inr (0, 0, 0)
   \<and> load example_trainer (save example_after_batch Map.empty ''1'') ''1''
        \<noteq> Inr example_after_batch"
proof -
  have loaded: "map_sum id (\<lambda>s. (mean_path_length s, r1_loss s, path_loss s))
        (load example_trainer (save example_after_batch Map.empty ''1'') ''1'') = Inr (0, 0, 0)"
    by (simp add: load_def save_def load_network_def save_network_def path_join_def
        net_filename_def example_after_batch_fields)
      (simp add: example_trainer_def)
  have "load example_trainer (save example_after_batch Map.empty ''1'') ''1''
        \<noteq> Inr example_after_batch"
  proof
    assume "load example_trainer (save example_after_batch Map.empty ''1'') ''1''
        = Inr example_after_batch"
    with loaded have "mean_path_length example_after_batch = 0" by simp
    then show False by (simp add: example_after_batch_fields)
  qed
  with loaded show ?thesis by (simp add: example_after_batch_fields)
qed

end
